theory Spec2Isabelle
  imports Complex_Main
begin

section \<open>Values of the indicator library\<close>

text \<open>
  The indicator functions of \<^verbatim>\<open>TechnicalIndicators\<close> (stock controller) and of
  \<^verbatim>\<open>StockService\<close> take an array of close prices and a window length and return
  either \<^verbatim>\<open>null\<close> or a JavaScript number (MACD and Bollinger Bands: an object).

  Prices are modelled as a \<open>real list\<close> and arithmetic as exact arithmetic on the reals:
  the rounding of IEEE doubles is not part of the model. A window length is a \<open>nat\<close>.
  JavaScript does not fail on a division by zero, it continues with \<^verbatim>\<open>NaN\<close> or
  \<^verbatim>\<open>Infinity\<close>; the only divisor of the library that can be zero is the window length.
  Such a run is reported as \<open>NonFinite\<close> and is not followed further, so that a result
  \<open>Null\<close> or \<open>Value r\<close> of the model always is the result of the code in exact arithmetic.
\<close>

datatype 'a result = Null | NonFinite | Value 'a

definition js_div :: "real \<Rightarrow> nat \<Rightarrow> real result" where
  \<comment> \<open>\<^verbatim>\<open>s / period\<close>, the divisor being a window length\<close>
  "js_div s period = (if period = 0 then NonFinite else Value (s / real period))"

definition slice_last :: "nat \<Rightarrow> 'a list \<Rightarrow> 'a list" where
  \<comment> \<open>\<^verbatim>\<open>xs.slice(-n)\<close>: the start index is \<open>max (length xs - n) 0\<close>, and \<^verbatim>\<open>-0\<close> is \<open>0\<close>\<close>
  "slice_last n xs = (if n = 0 then xs else drop (length xs - n) xs)"

definition reduce_sum :: "real list \<Rightarrow> real" where
  \<comment> \<open>\<^verbatim>\<open>xs.reduce((acc, price) => acc + price, 0)\<close>\<close>
  "reduce_sum xs = foldl (\<lambda>acc price. acc + price) 0 xs"

section \<open>Simple and exponential moving average\<close>

text \<open>
  \<^verbatim>\<open>calculateSMA\<close>, \<^verbatim>\<open>calculateEMA\<close> and \<^verbatim>\<open>calculateRSI\<close> have the same text in
  both modules; one definition stands for both copies.
\<close>

definition calculateSMA :: "real list \<Rightarrow> nat \<Rightarrow> real result" where
  "calculateSMA prices period =
     (if length prices < period then Null
      else js_div (reduce_sum (slice_last period prices)) period)"

function ema_loop :: "real list \<Rightarrow> real \<Rightarrow> real \<Rightarrow> nat \<Rightarrow> real" where
  \<comment> \<open>\<^verbatim>\<open>for (let i = period; i < prices.length; i++) ema = (prices[i] - ema) * multiplier + ema\<close>\<close>
  "ema_loop prices multiplier ema i =
     (if i < length prices
      then ema_loop prices multiplier ((prices ! i - ema) * multiplier + ema) (i + 1)
      else ema)"
  by pat_completeness auto
termination
  by (relation "measure (\<lambda>(prices, multiplier, ema, i). length prices - i)") auto

declare ema_loop.simps [simp del]

definition calculateEMA :: "real list \<Rightarrow> nat \<Rightarrow> real result" where
  "calculateEMA prices period =
     (if length prices < period then Null
      else
        let multiplier = 2 / (real period + 1) in
        (case js_div (reduce_sum (take period prices)) period of
           Value ema \<Rightarrow> Value (ema_loop prices multiplier ema period)
         | _ \<Rightarrow> NonFinite))"

section \<open>Relative strength index\<close>

function rsi_loop :: "real list \<Rightarrow> nat \<Rightarrow> real list \<Rightarrow> real list \<Rightarrow> real list \<times> real list" where
  \<comment> \<open>the loop from \<open>i = 1\<close> that pushes one gain and one loss per step\<close>
  "rsi_loop prices i gains losses =
     (if i < length prices
      then
        let change = prices ! i - prices ! (i - 1) in
        rsi_loop prices (i + 1)
          (gains @ [if change > 0 then change else 0])
          (losses @ [if change < 0 then \<bar>change\<bar> else 0])
      else (gains, losses))"
  by pat_completeness auto
termination
  by (relation "measure (\<lambda>(prices, i, gains, losses). length prices - i)") auto

declare rsi_loop.simps [simp del]

definition calculateRSI :: "real list \<Rightarrow> nat \<Rightarrow> real result" where
  "calculateRSI prices period =
     (if length prices < period + 1 then Null
      else
        case rsi_loop prices 1 [] [] of (gains, losses) \<Rightarrow>
          if length gains < period then Null
          else
            (case (js_div (reduce_sum (slice_last period gains)) period,
                   js_div (reduce_sum (slice_last period losses)) period) of
               (Value avgGain, Value avgLoss) \<Rightarrow>
                 if avgLoss = 0 then Value 100
                 else let rs = avgGain / avgLoss in Value (100 - (100 / (1 + rs)))
             | _ \<Rightarrow> NonFinite))"

section \<open>MACD and Bollinger Bands\<close>

text \<open>
  \<^verbatim>\<open>TechnicalIndicators.calculateMACD\<close> returns an object whose \<^verbatim>\<open>signal\<close> and
  \<^verbatim>\<open>histogram\<close> are the literal \<^verbatim>\<open>null\<close> (here \<open>None\<close>);
  \<^verbatim>\<open>StockService.calculateMACD\<close> returns the bare difference. Both test the two
  averages with \<^verbatim>\<open>!ema12 || !ema26\<close>, and \<^verbatim>\<open>!x\<close> holds of \<^verbatim>\<open>null\<close> and of the
  number \<open>0\<close>.
\<close>

record macd_object =
  macd :: real
  signal :: "real option"
  histogram :: "real option"

definition calculateMACD :: "real list \<Rightarrow> nat \<Rightarrow> nat \<Rightarrow> macd_object result" where
  "calculateMACD prices fastPeriod slowPeriod =
     (if length prices < slowPeriod then Null
      else
        (case calculateEMA prices fastPeriod of
           NonFinite \<Rightarrow> NonFinite
         | Null \<Rightarrow> Null
         | Value ema12 \<Rightarrow>
             (case calculateEMA prices slowPeriod of
                NonFinite \<Rightarrow> NonFinite
              | Null \<Rightarrow> Null
              | Value ema26 \<Rightarrow>
                  if ema12 = 0 \<or> ema26 = 0 then Null
                  else
                    let macdLine = ema12 - ema26 in
                    Value \<lparr>macd = macdLine, signal = None, histogram = None\<rparr>)))"

definition calculateMACD_service :: "real list \<Rightarrow> nat \<Rightarrow> nat \<Rightarrow> real result" where
  "calculateMACD_service prices fastPeriod slowPeriod =
     (if length prices < slowPeriod then Null
      else
        (case calculateEMA prices fastPeriod of
           NonFinite \<Rightarrow> NonFinite
         | Null \<Rightarrow> Null
         | Value ema12 \<Rightarrow>
             (case calculateEMA prices slowPeriod of
                NonFinite \<Rightarrow> NonFinite
              | Null \<Rightarrow> Null
              | Value ema26 \<Rightarrow>
                  if ema12 = 0 \<or> ema26 = 0 then Null
                  else Value (ema12 - ema26))))"

record bands =
  upper :: real
  middle :: real
  lower :: real

definition calculateBollingerBands :: "real list \<Rightarrow> nat \<Rightarrow> real \<Rightarrow> bands result" where
  \<comment> \<open>the guard \<^verbatim>\<open>if (!sma) return null\<close> is the test \<open>sma = 0\<close> on a number; in the last
      branch \<open>period\<close> is not zero, since \<open>calculateSMA\<close> returned a number\<close>
  "calculateBollingerBands prices period multiplier =
     (if length prices < period then Null
      else
        (case calculateSMA prices period of
           NonFinite \<Rightarrow> NonFinite
         | Null \<Rightarrow> Null
         | Value sma \<Rightarrow>
             if sma = 0 then Null
             else
               let recentPrices = slice_last period prices;
                   variance =
                     foldl (\<lambda>sum price. sum + (price - sma) ^ 2) 0 recentPrices / real period;
                   stdDev = sqrt variance
               in Value \<lparr>upper = sma + (multiplier * stdDev),
                          middle = sma,
                          lower = sma - (multiplier * stdDev)\<rparr>))"

section \<open>The alert model with a triggered flag\<close>

text \<open>
  The first Alert schema. A \<^verbatim>\<open>Date\<close> is its time in milliseconds, an absent field is
  \<open>None\<close>, and \<^verbatim>\<open>new Date()\<close> is the parameter \<open>now\<close>: the calls of
  \<^verbatim>\<open>new Date()\<close> within one method are taken to give the same instant. The strings
  of the schema (\<open>condition\<close>, \<open>alertType\<close>, ...) stay strings, so that the
  \<^verbatim>\<open>default\<close> branch of a \<^verbatim>\<open>switch\<close> is a branch of the model. The schema option
  \<^verbatim>\<open>timestamps: true\<close> adds the fields \<open>createdAt\<close> and \<open>updatedAt\<close>.
\<close>

record alert =
  userId :: nat
  symbol :: string
  alertType :: string
  condition :: string
  targetValue :: real
  indicatorType :: "string option"
  indicatorPeriod :: nat
  description :: string
  message :: "string option"
  isActive :: bool
  emailNotification :: bool
  smsNotification :: bool
  pushNotification :: bool
  triggered :: bool
  triggeredAt :: "int option"
  triggeredValue :: "real option"
  triggerCount :: nat
  lastChecked :: "int option"
  expiresAt :: "int option"
  frequency :: nat
  createdAt :: "int option"
  updatedAt :: "int option"

definition is_expired :: "alert \<Rightarrow> int \<Rightarrow> bool" where
  \<comment> \<open>\<^verbatim>\<open>this.expiresAt && this.expiresAt < new Date()\<close>\<close>
  "is_expired a now = (case expiresAt a of None \<Rightarrow> False | Some e \<Rightarrow> e < now)"

definition status :: "alert \<Rightarrow> int \<Rightarrow> string" where
  "status a now =
     (if \<not> isActive a then ''inactive''
      else if triggered a then ''triggered''
      else if is_expired a now then ''expired''
      else ''active'')"

definition shouldTrigger :: "alert \<Rightarrow> int \<Rightarrow> real \<Rightarrow> real option \<Rightarrow> bool" where
  \<comment> \<open>\<open>previousValue\<close> defaults to \<^verbatim>\<open>null\<close>, here \<open>None\<close>\<close>
  "shouldTrigger a now currentValue previousValue =
     (if \<not> isActive a \<or> triggered a then False
      else if is_expired a now then False
      else
        let target = targetValue a in
        if condition a = ''above'' then currentValue > target
        else if condition a = ''below'' then currentValue < target
        else if condition a = ''equals'' then \<bar>currentValue - target\<bar> < 0.01
        else if condition a = ''crosses_above'' then
          (case previousValue of None \<Rightarrow> False
           | Some previous \<Rightarrow> previous \<le> target \<and> currentValue > target)
        else if condition a = ''crosses_below'' then
          (case previousValue of None \<Rightarrow> False
           | Some previous \<Rightarrow> previous \<ge> target \<and> currentValue < target)
        else False)"

text \<open>
  \<^verbatim>\<open>trigger\<close> assigns four fields of the document and ends in \<^verbatim>\<open>this.save()\<close>.
  Saving is the work of mongoose, in this order: it validates the document and rejects
  with a validation error, storing nothing, when a validator fails; the option
  \<^verbatim>\<open>timestamps: true\<close> writes \<open>updatedAt\<close> (for a new document \<open>createdAt\<close>, when it is
  absent, and \<open>updatedAt\<close> equal to \<open>createdAt\<close>); then the \<^verbatim>\<open>pre('save')\<close> hook of the
  schema runs, and the document is written. The write itself is taken to succeed.

  The validators \<^verbatim>\<open>required: true\<close> of the schema are written out: \<open>symbol\<close>,
  \<open>alertType\<close>, \<open>condition\<close> and \<open>description\<close> must not be empty (\<open>userId\<close> and
  \<open>targetValue\<close> are always present in the record). The other validators of the schema
  (\<^verbatim>\<open>enum\<close>, \<^verbatim>\<open>min\<close>, \<^verbatim>\<open>max\<close>, \<^verbatim>\<open>maxlength\<close>), as far as mongoose applies them to a
  save, are the parameter \<open>validators\<close>. \<open>isNew\<close> is \<^verbatim>\<open>this.isNew\<close>, \<open>modified\<close> is
  \<^verbatim>\<open>this.isModified()\<close>, and \<open>describe\<close> is the template string the hook builds from
  symbol, condition and target.
\<close>

datatype save_error = ValidationError

definition required_present :: "alert \<Rightarrow> bool" where
  "required_present d =
     (symbol d \<noteq> [] \<and> alertType d \<noteq> [] \<and> condition d \<noteq> [] \<and> description d \<noteq> [])"

definition timestamps :: "bool \<Rightarrow> bool \<Rightarrow> int \<Rightarrow> alert \<Rightarrow> alert" where
  "timestamps isNew modified now d =
     (if isNew then
        (let created = (case createdAt d of None \<Rightarrow> now | Some c \<Rightarrow> c)
         in d\<lparr>createdAt := Some created, updatedAt := Some created\<rparr>)
      else if modified then d\<lparr>updatedAt := Some now\<rparr>
      else d)"

definition pre_save :: "(alert \<Rightarrow> string) \<Rightarrow> bool \<Rightarrow> bool \<Rightarrow> int \<Rightarrow> alert \<Rightarrow> alert" where
  \<comment> \<open>the \<^verbatim>\<open>pre('save')\<close> hook of the schema\<close>
  "pre_save describe isNew modified now d =
     (let d1 = (if modified \<and> \<not> isNew then d\<lparr>lastChecked := Some now\<rparr> else d)
      in if description d1 = [] then d1\<lparr>description := describe d1\<rparr> else d1)"

definition save ::
  "(alert \<Rightarrow> bool) \<Rightarrow> (alert \<Rightarrow> string) \<Rightarrow> bool \<Rightarrow> bool \<Rightarrow> int \<Rightarrow> alert \<Rightarrow> save_error + alert" where
  "save validators describe isNew modified now d =
     (if \<not> required_present d \<or> \<not> validators d then Inl ValidationError
      else Inr (pre_save describe isNew modified now (timestamps isNew modified now d)))"

definition trigger_assign :: "int \<Rightarrow> alert \<Rightarrow> alert" where
  \<comment> \<open>the assignments of \<^verbatim>\<open>trigger\<close> before \<^verbatim>\<open>this.save()\<close>: the document in memory,
      also when the save is rejected\<close>
  "trigger_assign now a =
     a\<lparr>triggered := True,
       triggeredAt := Some now,
       triggerCount := triggerCount a + 1,
       lastChecked := Some now\<rparr>"

definition trigger ::
  "(alert \<Rightarrow> bool) \<Rightarrow> (alert \<Rightarrow> string) \<Rightarrow> bool \<Rightarrow> int \<Rightarrow> alert \<Rightarrow> save_error + alert" where
  \<comment> \<open>the assignment to \<open>triggerCount\<close> modifies the document, so \<open>modified\<close> is true\<close>
  "trigger validators describe isNew now a =
     save validators describe isNew True now (trigger_assign now a)"

definition same_definition :: "alert \<Rightarrow> alert \<Rightarrow> bool" where
  \<comment> \<open>the fields of the alert's definition, which belong to the user\<close>
  "same_definition a a' =
     (symbol a' = symbol a \<and> alertType a' = alertType a \<and> condition a' = condition a \<and>
      targetValue a' = targetValue a \<and> indicatorType a' = indicatorType a \<and>
      indicatorPeriod a' = indicatorPeriod a \<and> isActive a' = isActive a \<and>
      expiresAt a' = expiresAt a \<and> emailNotification a' = emailNotification a \<and>
      smsNotification a' = smsNotification a \<and> pushNotification a' = pushNotification a)"

section \<open>The alert model with a cooldown\<close>

text \<open>
  The second Alert schema. Fields whose names the first schema already uses carry the
  suffix \<open>_c\<close>, and the field \<^verbatim>\<open>value\<close> of its condition is \<open>val\<close>. Saving is
  modelled as for the first schema. Here \<^verbatim>\<open>required: true\<close> stands at \<open>symbol\<close>,
  \<open>alertType\<close> and the indicator, operator and value of the condition (and at \<open>user\<close>),
  not at the description, and the hook \<^verbatim>\<open>pre('save')\<close> only fills in a missing
  description.
\<close>

record rule =
  indicator :: string
  operator :: string
  val :: real
  timeframe :: string

record channel =
  enabled :: bool
  lastSent :: "int option"

record notification_settings =
  email :: channel
  inApp :: channel

record cooldown_alert =
  user :: nat
  symbol_c :: string
  alertType_c :: string
  condition_c :: rule
  isActive_c :: bool
  triggerCount_c :: nat
  lastTriggered :: "int option"
  cooldownPeriod :: real
  notifications :: notification_settings
  description_c :: string
  tags :: "string list"
  createdAt_c :: "int option"
  updatedAt_c :: "int option"

definition status_c :: "cooldown_alert \<Rightarrow> string" where
  "status_c a =
     (if \<not> isActive_c a then ''inactive''
      else if lastTriggered a \<noteq> None then ''triggered''
      else ''active'')"

definition isInCooldown :: "cooldown_alert \<Rightarrow> int \<Rightarrow> bool" where
  \<comment> \<open>\<open>cooldownPeriod\<close> is in minutes, \<open>now\<close> is \<^verbatim>\<open>Date.now()\<close>\<close>
  "isInCooldown a now =
     (case lastTriggered a of
        None \<Rightarrow> False
      | Some t \<Rightarrow>
          let cooldownMs = cooldownPeriod a * 60 * 1000
          in real_of_int (now - t) < cooldownMs)"

definition canTrigger :: "cooldown_alert \<Rightarrow> int \<Rightarrow> bool" where
  "canTrigger a now = (isActive_c a \<and> \<not> isInCooldown a now)"

definition required_present_c :: "cooldown_alert \<Rightarrow> bool" where
  "required_present_c d =
     (symbol_c d \<noteq> [] \<and> alertType_c d \<noteq> [] \<and>
      indicator (condition_c d) \<noteq> [] \<and> operator (condition_c d) \<noteq> [])"

definition timestamps_c :: "bool \<Rightarrow> bool \<Rightarrow> int \<Rightarrow> cooldown_alert \<Rightarrow> cooldown_alert" where
  "timestamps_c isNew modified now d =
     (if isNew then
        (let created = (case createdAt_c d of None \<Rightarrow> now | Some c \<Rightarrow> c)
         in d\<lparr>createdAt_c := Some created, updatedAt_c := Some created\<rparr>)
      else if modified then d\<lparr>updatedAt_c := Some now\<rparr>
      else d)"

definition pre_save_c :: "(cooldown_alert \<Rightarrow> string) \<Rightarrow> cooldown_alert \<Rightarrow> cooldown_alert" where
  "pre_save_c describe d =
     (if description_c d = [] then d\<lparr>description_c := describe d\<rparr> else d)"

definition save_c ::
  "(cooldown_alert \<Rightarrow> bool) \<Rightarrow> (cooldown_alert \<Rightarrow> string) \<Rightarrow> bool \<Rightarrow> bool \<Rightarrow> int \<Rightarrow>
   cooldown_alert \<Rightarrow> save_error + cooldown_alert" where
  "save_c validators describe isNew modified now d =
     (if \<not> required_present_c d \<or> \<not> validators d then Inl ValidationError
      else Inr (pre_save_c describe (timestamps_c isNew modified now d)))"

definition trigger_assign_c :: "int \<Rightarrow> cooldown_alert \<Rightarrow> cooldown_alert" where
  "trigger_assign_c now a =
     a\<lparr>lastTriggered := Some now, triggerCount_c := triggerCount_c a + 1\<rparr>"

definition trigger_c ::
  "(cooldown_alert \<Rightarrow> bool) \<Rightarrow> (cooldown_alert \<Rightarrow> string) \<Rightarrow> bool \<Rightarrow> int \<Rightarrow>
   cooldown_alert \<Rightarrow> save_error + cooldown_alert" where
  "trigger_c validators describe isNew now a =
     save_c validators describe isNew True now (trigger_assign_c now a)"

definition same_definition_c :: "cooldown_alert \<Rightarrow> cooldown_alert \<Rightarrow> bool" where
  "same_definition_c a a' =
     (symbol_c a' = symbol_c a \<and> alertType_c a' = alertType_c a \<and>
      condition_c a' = condition_c a \<and> cooldownPeriod a' = cooldownPeriod a \<and>
      isActive_c a' = isActive_c a \<and> notifications a' = notifications a)"

section \<open>The condition test of the alert controller\<close>

definition evaluateCondition :: "real \<Rightarrow> string \<Rightarrow> real \<Rightarrow> bool" where
  \<comment> \<open>the helper of \<^verbatim>\<open>testAlert\<close>; it has no parameter for a previous sample\<close>
  "evaluateCondition currentValue cond targetValue' =
     (if cond = ''above'' then currentValue > targetValue'
      else if cond = ''below'' then currentValue < targetValue'
      else if cond = ''equals'' then \<bar>currentValue - targetValue'\<bar> < 0.001
      else if cond = ''crosses_above'' then currentValue > targetValue'
      else if cond = ''crosses_below'' then currentValue < targetValue'
      else False)"

section \<open>Sample alerts\<close>

text \<open>
  Two alerts with the defaults of their schemas, stored at time \<open>0\<close>, used where a
  statement is evaluated at a concrete alert: a price alert \<^verbatim>\<open>XYZ above 25\<close> and an
  RSI alert with the default cooldown of 60 minutes; and the second as \<open>trigger\<close> at
  time \<open>0\<close> leaves it.
\<close>

definition sample_alert :: alert where
  "sample_alert =
     \<lparr>userId = 1, symbol = ''XYZ'', alertType = ''price'', condition = ''above'',
      targetValue = 25, indicatorType = None, indicatorPeriod = 14,
      description = ''XYZ above 25'', message = None, isActive = True,
      emailNotification = True, smsNotification = False, pushNotification = True,
      triggered = False, triggeredAt = None, triggeredValue = None, triggerCount = 0,
      lastChecked = None, expiresAt = None, frequency = 5,
      createdAt = Some 0, updatedAt = Some 0\<rparr>"

definition sample_cooldown_alert :: cooldown_alert where
  "sample_cooldown_alert =
     \<lparr>user = 1, symbol_c = ''XYZ'', alertType_c = ''rsi_overbought'',
      condition_c = \<lparr>indicator = ''rsi'', operator = ''>'', val = 70, timeframe = ''15min''\<rparr>,
      isActive_c = True, triggerCount_c = 0, lastTriggered = None, cooldownPeriod = 60,
      notifications = \<lparr>email = \<lparr>enabled = True, lastSent = None\<rparr>,
                       inApp = \<lparr>enabled = True, lastSent = None\<rparr>\<rparr>,
      description_c = ''Alert for XYZ when RSI above 70 (15min)'', tags = [],
      createdAt_c = Some 0, updatedAt_c = Some 0\<rparr>"


section \<open>The indicator formulas as the specification words them\<close>

text \<open>
  The EMA recurrence, indexed by the position \<open>i\<close> in the price sequence: the seed is the
  arithmetic mean of the first \<open>period\<close> prices and stands at every index below
  \<open>period\<close>; from index \<open>period\<close> on,
  \<open>ema[i] = (price[i] - ema[i - 1]) * multiplier + ema[i - 1]\<close> with multiplier
  \<open>2 / (period + 1)\<close>.
\<close>

primrec ema_spec :: "real list \<Rightarrow> nat \<Rightarrow> nat \<Rightarrow> real" where
  "ema_spec prices period 0 = sum_list (take period prices) / real period"
| "ema_spec prices period (Suc i) =
     (if Suc i < period then sum_list (take period prices) / real period
      else (prices ! Suc i - ema_spec prices period i) * (2 / (real period + 1))
           + ema_spec prices period i)"

text \<open>
  The RSI of the specification: the per-step changes of the whole series, gain
  \<open>max \<Delta> 0\<close> and loss \<open>max (- \<Delta>) 0\<close>, and the simple average of the last \<open>period\<close>
  gains and of the last \<open>period\<close> losses.
\<close>

definition price_changes :: "real list \<Rightarrow> real list" where
  "price_changes prices = map (\<lambda>i. prices ! i - prices ! (i - 1)) [1..<length prices]"

definition avg_last :: "nat \<Rightarrow> real list \<Rightarrow> real" where
  "avg_last n xs = sum_list (drop (length xs - n) xs) / real n"

definition avg_gain_spec :: "real list \<Rightarrow> nat \<Rightarrow> real" where
  "avg_gain_spec prices period = avg_last period (map (\<lambda>d. max d 0) (price_changes prices))"

definition avg_loss_spec :: "real list \<Rightarrow> nat \<Rightarrow> real" where
  "avg_loss_spec prices period = avg_last period (map (\<lambda>d. max (- d) 0) (price_changes prices))"

definition rsi_spec :: "real list \<Rightarrow> nat \<Rightarrow> real" where
  "rsi_spec prices period =
     (if avg_loss_spec prices period = 0 then 100
      else 100 - 100 / (1 + avg_gain_spec prices period / avg_loss_spec prices period))"

section \<open>Insufficient data\<close>

text \<open>
  C4. A price sequence shorter than the window (shorter than \<open>period\<close> for SMA and EMA,
  shorter than \<open>period + 1\<close> for RSI) makes each indicator return \<^verbatim>\<open>null\<close>: the
  outcome is \<open>Null\<close>, hence neither a number nor a non-finite run, and the model has no
  exception to raise.
\<close>

theorem insufficient_data_null:
  "(length prices < period \<longrightarrow>
      calculateSMA prices period = Null \<and> calculateEMA prices period = Null) \<and>
   (length prices < period + 1 \<longrightarrow> calculateRSI prices period = Null)"
  by (simp add: calculateSMA_def calculateEMA_def calculateRSI_def)

theorem insufficient_data_null_witness:
  "length [10, 11, 12 :: real] < 5 \<and> length [10, 11, 12 :: real] < 3 + 1 \<and>
   calculateSMA [10, 11, 12] 5 = Null \<and> calculateEMA [10, 11, 12] 5 = Null \<and>
   calculateRSI [10, 11, 12] 3 = Null"
  using insufficient_data_null [of "[10, 11, 12]" 5] insufficient_data_null [of "[10, 11, 12]" 3]
  by simp

section \<open>The exponential moving average follows the recurrence\<close>

lemma foldl_plus_sum: "foldl (\<lambda>acc price. acc + price) a xs = a + sum_list (xs :: real list)"
  by (induction xs arbitrary: a) simp_all

lemma reduce_sum_sum_list: "reduce_sum xs = sum_list xs"
  by (simp add: reduce_sum_def foldl_plus_sum)

text \<open>
  The loop invariant: on entry to the iteration at index \<open>i\<close> the variable \<open>ema\<close> holds
  \<open>ema[i - 1]\<close>.
\<close>

lemma ema_loop_spec:
  assumes "0 < p"
  shows "p \<le> i \<Longrightarrow> i \<le> length ps \<Longrightarrow>
     ema_loop ps (2 / (real p + 1)) (ema_spec ps p (i - 1)) i = ema_spec ps p (length ps - 1)"
proof (induction n \<equiv> "length ps - i" arbitrary: i)
  case 0
  then have "i = length ps" by simp
  then show ?case by (simp add: ema_loop.simps)
next
  case (Suc n)
  then have lt: "i < length ps" by simp
  from Suc.prems assms obtain j where j: "i = Suc j" by (cases i) auto
  have step: "ema_spec ps p i =
      (ps ! i - ema_spec ps p (i - 1)) * (2 / (real p + 1)) + ema_spec ps p (i - 1)"
    using Suc.prems j by simp
  have "ema_loop ps (2 / (real p + 1)) (ema_spec ps p (i - 1)) i =
        ema_loop ps (2 / (real p + 1)) (ema_spec ps p ((i + 1) - 1)) (i + 1)"
    using lt step by (subst ema_loop.simps) simp
  also have "\<dots> = ema_spec ps p (length ps - 1)"
    using Suc.hyps(2) Suc.prems lt by (intro Suc.hyps(1)) simp_all
  finally show ?case .
qed

lemma ema_spec_seed: "0 < p \<Longrightarrow> ema_spec ps p (p - 1) = sum_list (take p ps) / real p"
proof (cases "p - 1")
  case 0
  then show ?thesis by simp
next
  case (Suc k)
  moreover from Suc have "Suc k < p" by arith
  ultimately show ?thesis by simp
qed

text \<open>
  C5. For a window \<open>period \<ge> 1\<close> and at least \<open>period\<close> prices, \<open>calculateEMA\<close> returns
  the last value of the recurrence: seed the mean of the first \<open>period\<close> prices,
  multiplier \<open>2 / (period + 1)\<close>, one step
  \<open>ema[i] = (price[i] - ema[i - 1]) * multiplier + ema[i - 1]\<close> for every index from
  \<open>period\<close> to the end.
\<close>

theorem calculateEMA_recurrence:
  assumes "0 < period" "period \<le> length prices"
  shows "calculateEMA prices period = Value (ema_spec prices period (length prices - 1))"
proof -
  have "ema_loop prices (2 / (real period + 1)) (sum_list (take period prices) / real period) period
        = ema_spec prices period (length prices - 1)"
    using assms ema_loop_spec [of period period prices] by (simp only: ema_spec_seed le_refl)
  with assms show ?thesis
    by (simp add: calculateEMA_def js_div_def reduce_sum_sum_list)
qed

theorem calculateEMA_recurrence_witness:
  "(0::nat) < 3 \<and> 3 \<le> length [1, 2, 3, 4, 5, 6 :: real] \<and>
   calculateEMA [1, 2, 3, 4, 5, 6] 3 = Value 5"
  using calculateEMA_recurrence [of 3 "[1, 2, 3, 4, 5, 6]"]
  by (simp add: eval_nat_numeral)

section \<open>The relative strength index\<close>

text \<open>The loop collects \<open>max \<Delta> 0\<close> and \<open>max (- \<Delta>) 0\<close> for every step of the series.\<close>

lemma rsi_loop_changes:
  "i \<le> length prices \<Longrightarrow>
   rsi_loop prices i gains losses =
     (gains @ map (\<lambda>j. max (prices ! j - prices ! (j - 1)) 0) [i..<length prices],
      losses @ map (\<lambda>j. max (- (prices ! j - prices ! (j - 1))) 0) [i..<length prices])"
proof (induction n \<equiv> "length prices - i" arbitrary: i gains losses)
  case 0
  then show ?case by (simp add: rsi_loop.simps)
next
  case (Suc n)
  then have lt: "i < length prices" by simp
  have upt: "[i..<length prices] = i # [Suc i..<length prices]"
    using lt by (simp add: upt_conv_Cons)
  have ih: "rsi_loop prices (Suc i) g l =
     (g @ map (\<lambda>j. max (prices ! j - prices ! (j - 1)) 0) [Suc i..<length prices],
      l @ map (\<lambda>j. max (- (prices ! j - prices ! (j - 1))) 0) [Suc i..<length prices])" for g l
    using Suc.hyps(2) lt by (intro Suc.hyps(1)) simp_all
  have gain: "(if c > 0 then c else 0) = max c 0" for c :: real
    by (simp add: max_def)
  have loss: "(if c < 0 then \<bar>c\<bar> else 0) = max (- c) 0" for c :: real
    by (simp add: max_def)
  have "rsi_loop prices i gains losses =
        rsi_loop prices (Suc i)
          (gains @ [max (prices ! i - prices ! (i - 1)) 0])
          (losses @ [max (- (prices ! i - prices ! (i - 1))) 0])"
    using lt by (subst rsi_loop.simps) (simp only: if_True Let_def gain loss Suc_eq_plus1)
  then show ?case
    by (simp only: ih upt list.map append_assoc append_Cons append_Nil)
qed

lemma rsi_loop_spec:
  "1 \<le> length prices \<Longrightarrow>
   rsi_loop prices (Suc 0) [] [] =
     (map (\<lambda>d. max d 0) (price_changes prices), map (\<lambda>d. max (- d) 0) (price_changes prices))"
  by (simp add: rsi_loop_changes price_changes_def o_def)

lemma length_price_changes: "length (price_changes prices) = length prices - 1"
  by (simp add: price_changes_def)

lemma calculateRSI_rsi_spec:
  assumes "0 < period" "period + 1 \<le> length prices"
  shows "calculateRSI prices period = Value (rsi_spec prices period)"
  using assms
  by (simp add: calculateRSI_def rsi_loop_spec length_price_changes js_div_def
      slice_last_def reduce_sum_sum_list rsi_spec_def avg_gain_spec_def avg_loss_spec_def
      avg_last_def)

lemma calculateRSI_Value:
  assumes "calculateRSI prices period = Value r"
  shows "0 < period \<and> period + 1 \<le> length prices"
proof -
  have len: "period + 1 \<le> length prices"
    using assms by (auto simp: calculateRSI_def split: if_splits)
  then have "1 \<le> length prices" by simp
  with assms len have "period \<noteq> 0"
    by (auto simp: calculateRSI_def rsi_loop_spec js_div_def split: if_splits)
  with len show ?thesis by simp
qed

lemma avg_last_nonneg: "\<forall>x \<in> set xs. 0 \<le> x \<Longrightarrow> 0 \<le> avg_last n xs"
  unfolding avg_last_def
  by (intro divide_nonneg_nonneg sum_list_nonneg) (auto dest: in_set_dropD)

lemma avg_gain_spec_nonneg: "0 \<le> avg_gain_spec prices period"
  unfolding avg_gain_spec_def by (rule avg_last_nonneg) simp

lemma avg_loss_spec_nonneg: "0 \<le> avg_loss_spec prices period"
  unfolding avg_loss_spec_def by (rule avg_last_nonneg) simp

lemma rsi_spec_range: "0 \<le> rsi_spec prices period \<and> rsi_spec prices period \<le> 100"
proof (cases "avg_loss_spec prices period = 0")
  case True
  then show ?thesis by (simp add: rsi_spec_def)
next
  case False
  define rs where "rs = avg_gain_spec prices period / avg_loss_spec prices period"
  have "0 \<le> rs"
    unfolding rs_def using avg_gain_spec_nonneg avg_loss_spec_nonneg by simp
  then have "0 < 100 / (1 + rs)" "100 / (1 + rs) \<le> 100"
    by (simp_all add: field_simps)
  with False show ?thesis by (simp add: rsi_spec_def rs_def)
qed

lemma rsi_spec_below:
  assumes "avg_loss_spec prices period \<noteq> 0"
  shows "rsi_spec prices period < 100"
proof -
  define rs where "rs = avg_gain_spec prices period / avg_loss_spec prices period"
  have "0 \<le> rs"
    unfolding rs_def using avg_gain_spec_nonneg avg_loss_spec_nonneg by simp
  then have "0 < 100 / (1 + rs)" by simp
  with assms show ?thesis by (simp add: rsi_spec_def rs_def)
qed

lemma sum_list_zeros: "\<forall>x \<in> set xs. x = 0 \<Longrightarrow> sum_list xs = (0 :: real)"
  by (induction xs) simp_all

lemma rsi_spec_monotone:
  assumes "\<forall>i. i + 1 < length prices \<longrightarrow> prices ! i \<le> prices ! (i + 1)"
  shows "avg_loss_spec prices period = 0"
proof -
  have "\<forall>d \<in> set (price_changes prices). 0 \<le> d"
  proof
    fix d assume "d \<in> set (price_changes prices)"
    then obtain j where j: "1 \<le> j" "j < length prices" "d = prices ! j - prices ! (j - 1)"
      by (auto simp: price_changes_def)
    with assms have "prices ! (j - 1) \<le> prices ! (j - 1 + 1)" by (intro assms [rule_format]) simp
    with j show "0 \<le> d" by simp
  qed
  then have "\<forall>x \<in> set (drop k (map (\<lambda>d. max (- d) 0) (price_changes prices))). x = 0" for k
    by (auto dest!: in_set_dropD simp: max_def)
  then have "sum_list (drop k (map (\<lambda>d. max (- d) 0) (price_changes prices))) = 0" for k
    by (rule sum_list_zeros)
  then show ?thesis
    by (simp add: avg_loss_spec_def avg_last_def)
qed

text \<open>
  C6. For a window \<open>period \<ge> 1\<close> and at least \<open>period + 1\<close> prices, \<open>calculateRSI\<close> is
  computed from the gains \<open>max \<Delta> 0\<close> and losses \<open>max (- \<Delta>) 0\<close> of every step of the
  series, averaging the last \<open>period\<close> gains and the last \<open>period\<close> losses: the result
  is \<open>100\<close> when the average loss is zero and \<open>100 - 100 / (1 + avgGain / avgLoss)\<close>
  otherwise; a series without a negative step has the result \<open>100\<close>.
\<close>

theorem calculateRSI_formula:
  assumes "0 < period" "period + 1 \<le> length prices"
  shows "calculateRSI prices period =
           Value (if avg_loss_spec prices period = 0 then 100
                  else 100 - 100 / (1 + avg_gain_spec prices period / avg_loss_spec prices period))
         \<and> ((\<forall>i. i + 1 < length prices \<longrightarrow> prices ! i \<le> prices ! (i + 1))
              \<longrightarrow> calculateRSI prices period = Value 100)"
  using assms calculateRSI_rsi_spec [of period prices] rsi_spec_monotone [of prices period]
  by (simp add: rsi_spec_def)

theorem calculateRSI_formula_witness:
  "(0::nat) < 2 \<and> 2 + 1 \<le> length [10, 12, 11, 13 :: real] \<and>
   calculateRSI [10, 12, 11, 13] 2 = Value (200 / 3) \<and>
   [10, 12, 13, 13 :: real] ! 0 \<le> [10, 12, 13, 13] ! 1 \<and>
   [10, 12, 13, 13 :: real] ! 1 \<le> [10, 12, 13, 13] ! 2 \<and>
   [10, 12, 13, 13 :: real] ! 2 \<le> [10, 12, 13, 13] ! 3 \<and>
   calculateRSI [10, 12, 13, 13] 2 = Value 100"
proof -
  have mono: "\<forall>i. i + 1 < length [10, 12, 13, 13 :: real] \<longrightarrow>
        [10, 12, 13, 13 :: real] ! i \<le> [10, 12, 13, 13] ! (i + 1)"
    by (auto simp: nth_Cons' less_Suc_eq eval_nat_numeral)
  have "calculateRSI [10, 12, 11, 13] 2 = Value (200 / 3)"
    using calculateRSI_formula [of 2 "[10, 12, 11, 13]"]
    by (simp add: avg_gain_spec_def avg_loss_spec_def avg_last_def price_changes_def
        eval_nat_numeral upt_rec)
  moreover have "calculateRSI [10, 12, 13, 13] 2 = Value 100"
  proof -
    have h1: "(0::nat) < 2" and h2: "2 + 1 \<le> length [10, 12, 13, 13 :: real]"
      by simp_all
    from calculateRSI_formula [OF h1 h2] mono show ?thesis by blast
  qed
  ultimately show ?thesis by simp
qed

text \<open>
  C10. Whenever \<open>calculateRSI\<close> returns a number, the number lies between \<open>0\<close> and
  \<open>100\<close>: it is \<open>100\<close> when the average of the last \<open>period\<close> losses is zero, and below
  \<open>100\<close> otherwise.
\<close>

theorem calculateRSI_range:
  assumes "calculateRSI prices period = Value r"
  shows "0 \<le> r \<and> r \<le> 100 \<and>
         (if avg_loss_spec prices period = 0 then r = 100 else r < 100)"
proof -
  from assms have "0 < period" "period + 1 \<le> length prices"
    using calculateRSI_Value by blast+
  then have "calculateRSI prices period = Value (rsi_spec prices period)"
    by (rule calculateRSI_rsi_spec)
  with assms have r: "r = rsi_spec prices period" by simp
  have "if avg_loss_spec prices period = 0 then r = 100 else r < 100"
    using r rsi_spec_below [of prices period] by (simp add: rsi_spec_def)
  with r show ?thesis using rsi_spec_range by simp
qed

theorem calculateRSI_range_witness:
  "calculateRSI [10, 12, 11, 13] 2 = Value (200 / 3) \<and>
   (0::real) \<le> 200 / 3 \<and> (200 / 3 :: real) < 100"
proof -
  have v: "calculateRSI [10, 12, 11, 13] 2 = Value (200 / 3)"
    using calculateRSI_rsi_spec [of 2 "[10, 12, 11, 13]"]
    by (simp add: rsi_spec_def avg_gain_spec_def avg_loss_spec_def avg_last_def price_changes_def
        eval_nat_numeral upt_rec)
  from calculateRSI_range [OF v] v show ?thesis by simp
qed

section \<open>MACD on averages that are zero\<close>

lemma ema_loop_zeros: "\<forall>x \<in> set ps. x = 0 \<Longrightarrow> ema_loop ps m 0 i = 0"
proof (induction n \<equiv> "length ps - i" arbitrary: i)
  case 0
  then show ?case by (simp add: ema_loop.simps)
next
  case (Suc n)
  then have lt: "i < length ps" by simp
  then have "ps ! i = 0" using Suc.prems by simp
  then have "ema_loop ps m 0 i = ema_loop ps m 0 (i + 1)"
    using lt by (subst ema_loop.simps) simp
  also have "\<dots> = 0"
    using Suc.hyps(2) Suc.prems lt by (intro Suc.hyps(1)) simp_all
  finally show ?case .
qed

lemma calculateEMA_zeros:
  "0 < period \<Longrightarrow> period \<le> n \<Longrightarrow> calculateEMA (replicate n 0) period = Value 0"
  by (simp add: calculateEMA_def js_div_def reduce_sum_sum_list sum_list_zeros ema_loop_zeros)

text \<open>
  Where both averages are numbers other than zero, both versions return their
  difference, the controller's version with \<^verbatim>\<open>signal\<close> and \<^verbatim>\<open>histogram\<close> left
  \<^verbatim>\<open>null\<close>.
\<close>

lemma calculateMACD_line:
  assumes "calculateEMA prices fastPeriod = Value ema12"
    and "calculateEMA prices slowPeriod = Value ema26"
    and "ema12 \<noteq> 0" "ema26 \<noteq> 0" "slowPeriod \<le> length prices"
  shows "calculateMACD prices fastPeriod slowPeriod =
           Value \<lparr>macd = ema12 - ema26, signal = None, histogram = None\<rparr>"
    and "calculateMACD_service prices fastPeriod slowPeriod = Value (ema12 - ema26)"
  using assms by (simp_all add: calculateMACD_def calculateMACD_service_def)

text \<open>
  Prices that are all positive have positive averages, so for them the MACD line is
  returned.
\<close>

lemma ema_loop_pos:
  assumes "0 < m" "m \<le> 1" "\<forall>x \<in> set ps. 0 < x"
  shows "0 < e \<Longrightarrow> 0 < ema_loop ps m e i"
proof (induction n \<equiv> "length ps - i" arbitrary: i e)
  case 0
  then show ?case by (simp add: ema_loop.simps)
next
  case (Suc n)
  then have lt: "i < length ps" by simp
  then have p: "0 < ps ! i" using assms(3) by simp
  have "(ps ! i - e) * m + e = m * ps ! i + (1 - m) * e" by (simp add: algebra_simps)
  moreover have "0 < m * ps ! i" using assms(1) p by simp
  moreover have "0 \<le> (1 - m) * e" using assms(2) Suc.prems by simp
  ultimately have pos: "0 < (ps ! i - e) * m + e" by linarith
  have "ema_loop ps m e i = ema_loop ps m ((ps ! i - e) * m + e) (i + 1)"
    using lt by (subst ema_loop.simps) simp
  also have "0 < \<dots>"
    using Suc.hyps(2) lt pos by (intro Suc.hyps(1)) simp_all
  finally show ?case .
qed

lemma sum_list_pos_real:
  "xs \<noteq> [] \<Longrightarrow> \<forall>x \<in> set xs. 0 < x \<Longrightarrow> 0 < sum_list (xs :: real list)"
  by (induction xs) (auto intro: add_pos_nonneg sum_list_nonneg less_imp_le)

lemma calculateEMA_pos:
  assumes "0 < period" "period \<le> length prices" "\<forall>x \<in> set prices. 0 < x"
  shows "\<exists>e. calculateEMA prices period = Value e \<and> 0 < e"
proof -
  have ne: "take period prices \<noteq> []" using assms by auto
  have "\<forall>x \<in> set (take period prices). 0 < x" using assms(3) by (auto dest: in_set_takeD)
  with ne have "0 < sum_list (take period prices)" by (rule sum_list_pos_real)
  then have seed: "0 < sum_list (take period prices) / real period" using assms(1) by simp
  have m: "0 < 2 / (real period + 1)" "2 / (real period + 1) \<le> 1" using assms(1) by simp_all
  from ema_loop_pos [OF m assms(3) seed]
  show ?thesis using assms by (simp add: calculateEMA_def js_div_def reduce_sum_sum_list)
qed

lemma calculateMACD_positive_prices:
  assumes "26 \<le> length prices" "\<forall>x \<in> set prices. 0 < x"
  shows "\<exists>ema12 ema26.
     calculateEMA prices 12 = Value ema12 \<and> calculateEMA prices 26 = Value ema26 \<and>
     calculateMACD prices 12 26 =
       Value \<lparr>macd = ema12 - ema26, signal = None, histogram = None\<rparr> \<and>
     calculateMACD_service prices 12 26 = Value (ema12 - ema26)"
proof -
  from assms obtain e12 where e12: "calculateEMA prices 12 = Value e12" "0 < e12"
    using calculateEMA_pos [of 12 prices] by auto
  from assms obtain e26 where e26: "calculateEMA prices 26 = Value e26" "0 < e26"
    using calculateEMA_pos [of 26 prices] by auto
  from e12 e26 assms(1) show ?thesis
    using calculateMACD_line [of prices 12 e12 26 e26] by auto
qed

text \<open>
  C7. MACD is not \<open>EMA(prices, 12) - EMA(prices, 26)\<close> for every sequence of at least
  \<open>26\<close> prices: for \<open>26\<close> prices that are all \<open>0\<close> both averages are the number \<open>0\<close>,
  the test \<^verbatim>\<open>!ema12 || !ema26\<close> takes the number \<open>0\<close> for a missing average, and both
  versions of \<open>calculateMACD\<close> return \<^verbatim>\<open>null\<close> where the MACD line is \<open>0 - 0 = 0\<close>.
\<close>

theorem calculateMACD_zero_average:
  "length (replicate 26 (0::real)) \<ge> 26 \<and>
   calculateEMA (replicate 26 0) 12 = Value 0 \<and>
   calculateEMA (replicate 26 0) 26 = Value 0 \<and>
   calculateMACD (replicate 26 0) 12 26 = Null \<and>
   calculateMACD_service (replicate 26 0) 12 26 = Null"
  by (simp add: calculateMACD_def calculateMACD_service_def calculateEMA_zeros)

section \<open>Bollinger Bands of a constant series\<close>

lemma calculateSMA_constant:
  "0 < period \<Longrightarrow> period \<le> n \<Longrightarrow> calculateSMA (replicate n c) period = Value c"
  by (simp add: calculateSMA_def js_div_def reduce_sum_sum_list slice_last_def sum_list_replicate)

lemma foldl_squares_zero:
  "\<forall>x \<in> set xs. x = c \<Longrightarrow> foldl (\<lambda>sum price. sum + (price - c) ^ 2) a xs = (a :: real)"
  by (induction xs arbitrary: a) simp_all

text \<open>
  In exact arithmetic a constant series of a price other than zero has the three bands
  equal to that price.
\<close>

lemma calculateBollingerBands_constant:
  assumes "0 < period" "period \<le> n" "c \<noteq> 0"
  shows "calculateBollingerBands (replicate n c) period multiplier =
           Value \<lparr>upper = c, middle = c, lower = c\<rparr>"
  using assms
  by (simp add: calculateBollingerBands_def calculateSMA_constant slice_last_def
      foldl_squares_zero Let_def)

text \<open>
  C8. A constant series does not always have \<open>upper = middle = lower\<close> equal to the
  constant: for \<open>20\<close> prices that are all \<open>0\<close> the average is the number \<open>0\<close>, the guard
  \<^verbatim>\<open>if (!sma) return null\<close> takes it for a missing average, and
  \<open>calculateBollingerBands\<close> returns \<^verbatim>\<open>null\<close> instead of three bands equal to \<open>0\<close>.
\<close>

theorem calculateBollingerBands_zero_prices:
  "length (replicate 20 (0::real)) \<ge> 20 \<and>
   calculateSMA (replicate 20 0) 20 = Value 0 \<and>
   calculateBollingerBands (replicate 20 0) 20 2 = Null"
  by (simp add: calculateBollingerBands_def calculateSMA_constant)

section \<open>Crossover conditions\<close>

text \<open>
  \<open>shouldTrigger\<close> of the alert model implements the crossover rule behind its gates
  (active, not yet triggered, not expired), and never triggers on a single sample.
\<close>

lemma shouldTrigger_crosses_above:
  "condition a = ''crosses_above'' \<Longrightarrow>
   shouldTrigger a now currentValue previousValue \<longleftrightarrow>
     isActive a \<and> \<not> triggered a \<and> \<not> is_expired a now \<and>
     (\<exists>previous. previousValue = Some previous \<and> previous \<le> targetValue a
        \<and> currentValue > targetValue a)"
  by (auto simp: shouldTrigger_def Let_def split: option.splits)

lemma shouldTrigger_crosses_below:
  "condition a = ''crosses_below'' \<Longrightarrow>
   shouldTrigger a now currentValue previousValue \<longleftrightarrow>
     isActive a \<and> \<not> triggered a \<and> \<not> is_expired a now \<and>
     (\<exists>previous. previousValue = Some previous \<and> previous \<ge> targetValue a
        \<and> currentValue < targetValue a)"
  by (auto simp: shouldTrigger_def Let_def split: option.splits)

lemma shouldTrigger_single_sample:
  "condition a = ''crosses_above'' \<or> condition a = ''crosses_below'' \<Longrightarrow>
   \<not> shouldTrigger a now currentValue None"
  by (auto simp: shouldTrigger_def Let_def)

text \<open>
  C1. A crossover condition evaluated on a single sample does not always give false:
  \<open>evaluateCondition\<close>, the condition test of the alert controller, has no previous
  sample at all and answers \<^verbatim>\<open>crosses_above\<close> as \<^verbatim>\<open>above\<close> and \<^verbatim>\<open>crosses_below\<close> as
  \<^verbatim>\<open>below\<close>. With a current value \<open>20\<close> and target \<open>15\<close> it reports a crossing above,
  with a current value \<open>10\<close> and target \<open>15\<close> a crossing below.
\<close>

theorem evaluateCondition_crossover_single_sample:
  "evaluateCondition 20 ''crosses_above'' 15 = True \<and>
   evaluateCondition 10 ''crosses_below'' 15 = True"
  by (simp add: evaluateCondition_def)

section \<open>The status of an alert\<close>

text \<open>
  C2, as the code has it. The status of the first schema depends on \<open>isActive\<close>,
  \<open>triggered\<close> and the comparison of \<open>expiresAt\<close> with the current time, tested in this
  order: \<^verbatim>\<open>inactive\<close> when the alert is not active; otherwise \<^verbatim>\<open>triggered\<close> when the
  flag is set; otherwise \<^verbatim>\<open>expired\<close> when \<open>expiresAt\<close> is present and before now;
  otherwise \<^verbatim>\<open>active\<close>. The status of the second schema depends on \<open>isActive\<close> and
  \<open>lastTriggered\<close> alone: \<^verbatim>\<open>inactive\<close>, otherwise \<^verbatim>\<open>triggered\<close> when \<open>lastTriggered\<close>
  is set, otherwise \<^verbatim>\<open>active\<close>; it has neither an expiry nor a cooldown status.
\<close>

theorem status_order:
  "(status a now = ''inactive'' \<longleftrightarrow> \<not> isActive a) \<and>
   (status a now = ''triggered'' \<longleftrightarrow> isActive a \<and> triggered a) \<and>
   (status a now = ''expired'' \<longleftrightarrow>
      isActive a \<and> \<not> triggered a \<and> (\<exists>e. expiresAt a = Some e \<and> e < now)) \<and>
   (status a now = ''active'' \<longleftrightarrow>
      isActive a \<and> \<not> triggered a \<and> \<not> (\<exists>e. expiresAt a = Some e \<and> e < now)) \<and>
   (status_c b = ''inactive'' \<longleftrightarrow> \<not> isActive_c b) \<and>
   (status_c b = ''triggered'' \<longleftrightarrow> isActive_c b \<and> lastTriggered b \<noteq> None) \<and>
   (status_c b = ''active'' \<longleftrightarrow> isActive_c b \<and> lastTriggered b = None)"
  by (auto simp: status_def status_c_def is_expired_def split: option.splits)

theorem status_order_witness:
  "status (sample_alert\<lparr>expiresAt := Some 5\<rparr>) 10 = ''expired'' \<and>
   status (sample_alert\<lparr>expiresAt := Some 5\<rparr>) 3 = ''active'' \<and>
   status sample_alert 10 = ''active'' \<and>
   status_c sample_cooldown_alert = ''active'' \<and>
   status_c (sample_cooldown_alert\<lparr>lastTriggered := Some 0\<rparr>) = ''triggered''"
  using status_order [of "sample_alert\<lparr>expiresAt := Some 5\<rparr>" 10 sample_cooldown_alert]
    status_order [of "sample_alert\<lparr>expiresAt := Some 5\<rparr>" 3
      "sample_cooldown_alert\<lparr>lastTriggered := Some 0\<rparr>"]
    status_order [of sample_alert 10 sample_cooldown_alert]
  by (simp add: sample_alert_def sample_cooldown_alert_def)

text \<open>
  The expiry test does not come first: an alert that is expired and not active has the
  status \<^verbatim>\<open>inactive\<close>, and an alert that is expired and triggered has the status
  \<^verbatim>\<open>triggered\<close>. The status of the second schema does not look at the cooldown: 61
  minutes after its last trigger an alert with a cooldown of 60 minutes is out of
  cooldown and still has the status \<^verbatim>\<open>triggered\<close>.
\<close>

theorem status_expiry_counterexample:
  "is_expired (sample_alert\<lparr>isActive := False, expiresAt := Some 5\<rparr>) 10 \<and>
   status (sample_alert\<lparr>isActive := False, expiresAt := Some 5\<rparr>) 10 = ''inactive'' \<and>
   is_expired (sample_alert\<lparr>triggered := True, expiresAt := Some 5\<rparr>) 10 \<and>
   status (sample_alert\<lparr>triggered := True, expiresAt := Some 5\<rparr>) 10 = ''triggered'' \<and>
   \<not> isInCooldown (sample_cooldown_alert\<lparr>lastTriggered := Some 0\<rparr>) (61 * 60 * 1000) \<and>
   status_c (sample_cooldown_alert\<lparr>lastTriggered := Some 0\<rparr>) = ''triggered''"
  by (simp add: status_def is_expired_def sample_alert_def status_c_def isInCooldown_def
      sample_cooldown_alert_def)

section \<open>Cooldown and repeated triggering\<close>

text \<open>
  Times are in milliseconds: 30 minutes are \<open>30 * 60 * 1000\<close>. In the cooldown schema
  \<open>trigger\<close> returns the saved document exactly when the document validates.
\<close>

lemma trigger_c_Inr:
  "trigger_c validators describe isNew now a = Inr a' \<longleftrightarrow>
     required_present_c a \<and> validators (trigger_assign_c now a) \<and>
     a' = pre_save_c describe (timestamps_c isNew True now (trigger_assign_c now a))"
  by (auto simp: trigger_c_def save_c_def required_present_c_def trigger_assign_c_def)


lemma trigger_c_fields:
  assumes "trigger_c validators describe isNew now a = Inr a'"
  shows "lastTriggered a' = Some now" "triggerCount_c a' = triggerCount_c a + 1"
    "isActive_c a' = isActive_c a" "cooldownPeriod a' = cooldownPeriod a"
    "required_present_c a'"
  using assms
  by (auto simp: trigger_c_Inr pre_save_c_def timestamps_c_def trigger_assign_c_def
      required_present_c_def Let_def)

text \<open>
  After a successful \<open>trigger\<close> at \<open>T\<close> the alert can trigger again exactly from the end
  of its cooldown on.
\<close>

lemma canTrigger_after_trigger:
  assumes "trigger_c validators describe isNew T a = Inr a1"
  shows "canTrigger a1 now \<longleftrightarrow>
     isActive_c a \<and> cooldownPeriod a * 60 * 1000 \<le> real_of_int (now - T)"
  using trigger_c_fields [OF assms]
  by (auto simp: isInCooldown_def canTrigger_def Let_def)

text \<open>
  In the schema with the triggered flag an alert that has triggered does not trigger
  again, at any time and for any samples.
\<close>

lemma trigger_one_shot:
  assumes "trigger validators describe isNew T a = Inr a'"
  shows "\<not> shouldTrigger a' now currentValue previousValue"
  using assms
  by (auto simp: shouldTrigger_def trigger_def save_def pre_save_def timestamps_def
      trigger_assign_def Let_def split: if_splits)




section \<open>What trigger changes\<close>

text \<open>
  C9, as the code has it. \<open>trigger\<close> assigns bookkeeping fields and saves: in the
  cooldown schema \<open>lastTriggered\<close> and \<open>triggerCount\<close>, in the schema with the
  triggered flag \<open>triggered\<close>, \<open>triggeredAt\<close>, \<open>triggerCount\<close> and \<open>lastChecked\<close>. The
  save is rejected with a validation error exactly when a required field is empty (in
  the schema with the flag also the description) or another validator fails; else the
  saved document differs from the alert before the call in the assigned fields, in the
  timestamps \<open>createdAt\<close> and \<open>updatedAt\<close> that saving writes, and, in the cooldown
  schema, in a description that was empty and is filled in, and in nothing else. In the
  document in memory and in the saved document every field of the definition (symbol,
  alert type, condition, target value, indicator type and period, cooldown period,
  \<open>isActive\<close>, \<open>expiresAt\<close>, notification settings) has the value it had before the
  call.
\<close>

theorem trigger_frame:
  "same_definition a (trigger_assign now a) \<and>
   (case trigger validators describe isNew now a of
      Inl e \<Rightarrow> \<not> (required_present a \<and> validators (trigger_assign now a))
    | Inr a' \<Rightarrow>
        required_present a \<and> validators (trigger_assign now a) \<and>
        same_definition a a' \<and>
        a' = a\<lparr>triggered := True, triggeredAt := Some now,
               triggerCount := triggerCount a + 1, lastChecked := Some now,
               createdAt := createdAt (timestamps isNew True now a),
               updatedAt := updatedAt (timestamps isNew True now a)\<rparr>) \<and>
   same_definition_c b (trigger_assign_c now b) \<and>
   (case trigger_c validators_c describe_c isNew now b of
      Inl e \<Rightarrow> \<not> (required_present_c b \<and> validators_c (trigger_assign_c now b))
    | Inr b' \<Rightarrow>
        required_present_c b \<and> validators_c (trigger_assign_c now b) \<and>
        same_definition_c b b' \<and>
        b' = b\<lparr>lastTriggered := Some now, triggerCount_c := triggerCount_c b + 1,
               createdAt_c := createdAt_c (timestamps_c isNew True now b),
               updatedAt_c := updatedAt_c (timestamps_c isNew True now b),
               description_c :=
                 (if description_c b = []
                  then describe_c (timestamps_c isNew True now (trigger_assign_c now b))
                  else description_c b)\<rparr>)"
proof -
  have a: "(case trigger validators describe isNew now a of
      Inl e \<Rightarrow> \<not> (required_present a \<and> validators (trigger_assign now a))
    | Inr a' \<Rightarrow>
        required_present a \<and> validators (trigger_assign now a) \<and>
        same_definition a a' \<and>
        a' = a\<lparr>triggered := True, triggeredAt := Some now,
               triggerCount := triggerCount a + 1, lastChecked := Some now,
               createdAt := createdAt (timestamps isNew True now a),
               updatedAt := updatedAt (timestamps isNew True now a)\<rparr>)"
    by (simp add: trigger_def save_def pre_save_def timestamps_def trigger_assign_def
        required_present_def same_definition_def Let_def)
  have b: "(case trigger_c validators_c describe_c isNew now b of
      Inl e \<Rightarrow> \<not> (required_present_c b \<and> validators_c (trigger_assign_c now b))
    | Inr b' \<Rightarrow>
        required_present_c b \<and> validators_c (trigger_assign_c now b) \<and>
        same_definition_c b b' \<and>
        b' = b\<lparr>lastTriggered := Some now, triggerCount_c := triggerCount_c b + 1,
               createdAt_c := createdAt_c (timestamps_c isNew True now b),
               updatedAt_c := updatedAt_c (timestamps_c isNew True now b),
               description_c :=
                 (if description_c b = []
                  then describe_c (timestamps_c isNew True now (trigger_assign_c now b))
                  else description_c b)\<rparr>)"
    by (simp add: trigger_c_def save_c_def pre_save_c_def timestamps_c_def trigger_assign_c_def
        required_present_c_def same_definition_c_def Let_def)
  have m: "same_definition a (trigger_assign now a)"
    "same_definition_c b (trigger_assign_c now b)"
    by (simp_all add: same_definition_def same_definition_c_def trigger_assign_def
        trigger_assign_c_def)
  from a b m show ?thesis by simp
qed

theorem trigger_frame_witness:
  "trigger (\<lambda>d. True) (\<lambda>d. []) False 1000 sample_alert =
     Inr (sample_alert\<lparr>triggered := True, triggeredAt := Some 1000, triggerCount := 1,
            lastChecked := Some 1000, updatedAt := Some 1000\<rparr>) \<and>
   trigger (\<lambda>d. True) (\<lambda>d. []) False 1000 (sample_alert\<lparr>description := []\<rparr>) =
     Inl ValidationError \<and>
   trigger_c (\<lambda>d. True) (\<lambda>d. ''filled in'') False 1000
       (sample_cooldown_alert\<lparr>description_c := []\<rparr>) =
     Inr (sample_cooldown_alert\<lparr>lastTriggered := Some 1000, triggerCount_c := 1,
            updatedAt_c := Some 1000, description_c := ''filled in''\<rparr>)"
proof -
  note frame = trigger_frame [where now = 1000 and isNew = False
      and validators = "\<lambda>d. True" and describe = "\<lambda>d. []"
      and validators_c = "\<lambda>d. True" and describe_c = "\<lambda>d. ''filled in''"]
  have 1: "trigger (\<lambda>d. True) (\<lambda>d. []) False 1000 sample_alert =
     Inr (sample_alert\<lparr>triggered := True, triggeredAt := Some 1000, triggerCount := 1,
            lastChecked := Some 1000, updatedAt := Some 1000\<rparr>)"
  proof (cases "trigger (\<lambda>d. True) (\<lambda>d. []) False 1000 sample_alert")
    case (Inl e)
    with frame [where a = sample_alert and b = sample_cooldown_alert]
    have "\<not> required_present sample_alert" by simp
    then show ?thesis by (simp add: required_present_def sample_alert_def)
  next
    case (Inr a')
    with frame [where a = sample_alert and b = sample_cooldown_alert]
    have "a' = sample_alert\<lparr>triggered := True, triggeredAt := Some 1000,
               triggerCount := triggerCount sample_alert + 1, lastChecked := Some 1000,
               createdAt := createdAt (timestamps False True 1000 sample_alert),
               updatedAt := updatedAt (timestamps False True 1000 sample_alert)\<rparr>"
      by simp
    with Inr show ?thesis by (simp add: timestamps_def sample_alert_def)
  qed
  have 2: "trigger (\<lambda>d. True) (\<lambda>d. []) False 1000 (sample_alert\<lparr>description := []\<rparr>) =
     Inl ValidationError"
  proof (cases "trigger (\<lambda>d. True) (\<lambda>d. []) False 1000 (sample_alert\<lparr>description := []\<rparr>)")
    case (Inl e)
    then show ?thesis by (cases e) simp
  next
    case (Inr a')
    with frame [where a = "sample_alert\<lparr>description := []\<rparr>" and b = sample_cooldown_alert]
    have "required_present (sample_alert\<lparr>description := []\<rparr>)" by simp
    then show ?thesis by (simp add: required_present_def)
  qed
  have 3: "trigger_c (\<lambda>d. True) (\<lambda>d. ''filled in'') False 1000
       (sample_cooldown_alert\<lparr>description_c := []\<rparr>) =
     Inr (sample_cooldown_alert\<lparr>lastTriggered := Some 1000, triggerCount_c := 1,
            updatedAt_c := Some 1000, description_c := ''filled in''\<rparr>)"
  proof (cases "trigger_c (\<lambda>d. True) (\<lambda>d. ''filled in'') False 1000
       (sample_cooldown_alert\<lparr>description_c := []\<rparr>)")
    case (Inl e)
    with frame [where a = sample_alert and b = "sample_cooldown_alert\<lparr>description_c := []\<rparr>"]
    have "\<not> required_present_c (sample_cooldown_alert\<lparr>description_c := []\<rparr>)" by simp
    then show ?thesis by (simp add: required_present_c_def sample_cooldown_alert_def)
  next
    case (Inr b')
    with frame [where a = sample_alert and b = "sample_cooldown_alert\<lparr>description_c := []\<rparr>"]
    have "b' = sample_cooldown_alert\<lparr>description_c := [], lastTriggered := Some 1000,
        triggerCount_c := triggerCount_c (sample_cooldown_alert\<lparr>description_c := []\<rparr>) + 1,
        createdAt_c := createdAt_c (timestamps_c False True 1000
          (sample_cooldown_alert\<lparr>description_c := []\<rparr>)),
        updatedAt_c := updatedAt_c (timestamps_c False True 1000
          (sample_cooldown_alert\<lparr>description_c := []\<rparr>)),
        description_c := ''filled in''\<rparr>"
      by simp
    with Inr show ?thesis by (simp add: timestamps_c_def sample_cooldown_alert_def)
  qed
  from 1 2 3 show ?thesis by simp
qed

text \<open>
  The fields \<open>trigger\<close> changes are not \<open>lastTriggered\<close> and \<open>triggerCount\<close> alone: in
  the first schema it sets the \<open>triggered\<close> flag, \<open>triggeredAt\<close> and \<open>lastChecked\<close>, and
  in both schemas saving rewrites \<open>updatedAt\<close>.
\<close>

theorem trigger_frame_counterexample:
  "trigger (\<lambda>d. True) (\<lambda>d. []) False 1000 sample_alert =
     Inr (sample_alert\<lparr>triggered := True, triggeredAt := Some 1000, triggerCount := 1,
            lastChecked := Some 1000, updatedAt := Some 1000\<rparr>) \<and>
   triggered sample_alert = False \<and> lastChecked sample_alert = None \<and>
   updatedAt sample_alert = Some 0 \<and>
   trigger_c (\<lambda>d. True) (\<lambda>d. []) False 1000 sample_cooldown_alert =
     Inr (sample_cooldown_alert\<lparr>lastTriggered := Some 1000, triggerCount_c := 1,
            updatedAt_c := Some 1000\<rparr>) \<and>
   updatedAt_c sample_cooldown_alert = Some 0"
  by (simp add: trigger_def save_def pre_save_def timestamps_def trigger_assign_def
      required_present_def sample_alert_def trigger_c_def save_c_def pre_save_c_def
      timestamps_c_def trigger_assign_c_def required_present_c_def sample_cooldown_alert_def)

end
